theory Spec2Isabelle
  imports Complex_Main
begin

section \<open>JavaScript values\<close>

text \<open>
  Both routes work on values produced by \<open>JSON.parse\<close>. A property that is not
  there reads as \<open>undefined\<close>, which is \<open>None\<close> of \<open>json option\<close>.
  Numbers are the integer-valued ones; an object is the list of its own properties.
  No value of a parsed document can be called.
  A string is a list of UTF-16 code units below 256, one \<open>char\<close> each.
\<close>

datatype json =
  JNull
  | JBool bool
  | JNum int
  | JStr string
  | JArr "json list"
  | JObj "(string \<times> json) list"

text \<open>
  What the source throws (\<open>new Error(...)\<close>, a \<open>TypeError\<close> of the runtime) or
  what a collaborator rejects with.
\<close>

datatype error =
  TextTooShort \<comment> \<open>\<open>Error("Text too short after cleaning")\<close>\<close>
  | TypeError \<comment> \<open>property read on \<open>null\<close>/\<open>undefined\<close>, call of a non-function, failed conversion\<close>
  | LoadFailure \<comment> \<open>\<open>pipeline(...)\<close> rejected\<close>
  | EmbeddingFailure \<comment> \<open>the model invocation rejected\<close>
  | StoreFailure \<comment> \<open>\<open>index.upsert\<close> or \<open>index.query\<close> rejected\<close>
  | ClientFailure \<comment> \<open>\<open>new Pinecone(...)\<close> threw\<close>
  | SourceFailure \<comment> \<open>no JSON file found, unreadable file or \<open>JSON.parse\<close> threw\<close>
  | NotAnArray \<comment> \<open>\<open>Error("JSON data must be an array of questions")\<close>\<close>
  | BodyFailure \<comment> \<open>\<open>request.json()\<close> rejected\<close>

text \<open>JavaScript truthiness: \<open>if (v)\<close>, \<open>!v\<close>, \<open>a || b\<close>, \<open>a && b\<close>.\<close>

fun truthy :: "json option \<Rightarrow> bool" where
  "truthy None = False"
| "truthy (Some JNull) = False"
| "truthy (Some (JBool b)) = b"
| "truthy (Some (JNum n)) = (n \<noteq> 0)"
| "truthy (Some (JStr s)) = (s \<noteq> [])"
| "truthy (Some (JArr xs)) = True"
| "truthy (Some (JObj kvs)) = True"

text \<open>\<open>a || b\<close>: the left operand when it is truthy, the right one otherwise.\<close>

definition js_or :: "json option \<Rightarrow> json option \<Rightarrow> json option" where
  "js_or a b = (if truthy a then a else b)"

text \<open>\<open>typeof v === "object"\<close>: true of \<open>null\<close>, arrays and objects.\<close>

fun typeof_object :: "json option \<Rightarrow> bool" where
  "typeof_object (Some JNull) = True"
| "typeof_object (Some (JArr xs)) = True"
| "typeof_object (Some (JObj kvs)) = True"
| "typeof_object v = False"

text \<open>
  \<open>v.k\<close> for the keys the routes read (\<open>_id\<close>, \<open>$oid\<close>, \<open>id\<close>,
  \<open>cleanedQuestion\<close>, \<open>question\<close>, \<open>subject\<close>, \<open>topic\<close>, \<open>course\<close>,
  \<open>batchSize\<close>, \<open>limit\<close>, \<open>jsonFilePath\<close>, \<open>query\<close>, \<open>topK\<close>): a
  \<open>TypeError\<close> on \<open>null\<close>, the own property of an object, \<open>undefined\<close> on a
  number, boolean, string or array (none of these keys is a built-in property).
\<close>

fun get_prop :: "json \<Rightarrow> string \<Rightarrow> error + json option" where
  "get_prop JNull k = Inl TypeError"
| "get_prop (JObj kvs) k = Inr (map_of kvs k)"
| "get_prop v k = Inr None"

subsection \<open>\<open>String(v)\<close>\<close>

definition digit_char :: "nat \<Rightarrow> char" where
  "digit_char d = char_of (48 + d)"

function show_nat :: "nat \<Rightarrow> string" where
  "show_nat n = (if n < 10 then [digit_char n] else show_nat (n div 10) @ [digit_char (n mod 10)])"
  by pat_completeness auto
termination
  by (relation "measure (\<lambda>n. n)") auto

definition show_int :: "int \<Rightarrow> string" where
  "show_int i = (if i < 0 then CHR ''-'' # show_nat (nat (- i)) else show_nat (nat i))"

fun join_comma :: "string list \<Rightarrow> string" where
  "join_comma [] = []"
| "join_comma [s] = s"
| "join_comma (s # t # ss) = s @ CHR '','' # join_comma (t # ss)"

text \<open>
  \<open>ToNumber\<close> yields a number, \<open>NaN\<close> or an infinity.
\<close>

datatype jsnum = NaN | Fin int | PosInf | NegInf

text \<open>
  Two things are the runtime's and stay parameters: the number a string converts to
  (the grammar of numeric strings), and the text of a number outside the safe integers,
  where \<open>JSON.parse\<close> has rounded to a double and the digits are those of the double,
  in exponent form from \<open>1e21\<close> on. That text is never empty; it is given as its first
  character and the rest.
\<close>

record runtime =
  string_to_number :: "string \<Rightarrow> jsnum"
  big_number_text :: "int \<Rightarrow> char \<times> string"

definition number_text :: "runtime \<Rightarrow> int \<Rightarrow> string" where
  "number_text rt n =
     (if - 9007199254740991 \<le> n \<and> n \<le> 9007199254740991 then show_int n
      else (case big_number_text rt n of (c, cs) \<Rightarrow> c # cs))"

text \<open>
  \<open>ToString\<close> of an object looks for a callable \<open>toString\<close>, then for a
  \<open>valueOf\<close> that returns a primitive. A parsed object with a \<open>toString\<close> key of
  its own has a value there that cannot be called, and \<open>Object.prototype.valueOf\<close>
  returns the object: the conversion throws a \<open>TypeError\<close>. An array joins the texts
  of its elements, so it throws when one of them does.
\<close>

fun printable :: "json \<Rightarrow> bool" where
  "printable (JArr xs) = list_all printable xs"
| "printable (JObj kvs) = (map_of kvs ''toString'' = None)"
| "printable v = True"

text \<open>
  The text of a value that can be converted. An array is its elements joined by
  commas, where a \<open>null\<close> element contributes the empty string; an object is
  \<open>[object Object]\<close>.
\<close>

fun js_String :: "runtime \<Rightarrow> json \<Rightarrow> string" where
  "js_String rt JNull = ''null''"
| "js_String rt (JBool b) = (if b then ''true'' else ''false'')"
| "js_String rt (JNum n) = number_text rt n"
| "js_String rt (JStr s) = s"
| "js_String rt (JArr xs) = join_comma (map (\<lambda>x. if x = JNull then [] else js_String rt x) xs)"
| "js_String rt (JObj kvs) = ''[object Object]''"

text \<open>\<open>String(v)\<close> and \<open>`${v}`\<close>, where \<open>v\<close> may be \<open>undefined\<close>.\<close>

definition to_String :: "runtime \<Rightarrow> json \<Rightarrow> error + string" where
  "to_String rt v = (if printable v then Inr (js_String rt v) else Inl TypeError)"

fun to_String_opt :: "runtime \<Rightarrow> json option \<Rightarrow> error + string" where
  "to_String_opt rt None = Inr ''undefined''"
| "to_String_opt rt (Some v) = to_String rt v"

subsection \<open>Numeric coercion\<close>

text \<open>
  \<open>ToNumber(v)\<close>: an array or an object is first converted to a primitive, which is
  its text or a \<open>TypeError\<close> as above (with the hint \<open>number\<close> the own
  \<open>valueOf\<close> is tried first, with the same outcome).
\<close>

fun to_number :: "runtime \<Rightarrow> json \<Rightarrow> error + jsnum" where
  "to_number rt JNull = Inr (Fin 0)"
| "to_number rt (JBool b) = Inr (Fin (if b then 1 else 0))"
| "to_number rt (JNum n) = Inr (Fin n)"
| "to_number rt (JStr s) = Inr (string_to_number rt s)"
| "to_number rt v = (case to_String rt v of Inl e \<Rightarrow> Inl e | Inr s \<Rightarrow> Inr (string_to_number rt s))"

text \<open>\<open>n >= v\<close> for a length \<open>n\<close>: false when \<open>v\<close> coerces to \<open>NaN\<close>.\<close>

fun length_ge :: "nat \<Rightarrow> jsnum \<Rightarrow> bool" where
  "length_ge n NaN = False"
| "length_ge n (Fin k) = (k \<le> int n)"
| "length_ge n PosInf = False"
| "length_ge n NegInf = True"

text \<open>
  \<open>xs.slice(0, v)\<close>: the end index is \<open>ToIntegerOrInfinity(ToNumber(v))\<close>
  (\<open>NaN\<close> is 0); a negative end counts from the end of the array.
\<close>

fun slice_to :: "jsnum \<Rightarrow> 'a list \<Rightarrow> 'a list" where
  "slice_to NaN xs = []"
| "slice_to (Fin k) xs = (if k < 0 then take (nat (int (length xs) + k)) xs else take (nat k) xs)"
| "slice_to PosInf xs = xs"
| "slice_to NegInf xs = []"

section \<open>Text normalisation\<close>

text \<open>
  White space as \<open>\s\<close> and \<open>trim()\<close> see it, among the code units below 256:
  tab, line feed, vertical tab, form feed, carriage return, space and no-break space.
\<close>

definition is_space :: "char \<Rightarrow> bool" where
  "is_space c = (of_char c \<in> {9, 10, 11, 12, 13, 32, 160 :: nat})"

text \<open>
  \<open>.replace(/<[^>]*>/g, "")\<close>: scanning left to right, a \<open><\<close> that has a
  \<open>>\<close> somewhere after it is removed together with everything up to the first such
  \<open>>\<close>, and the scan goes on behind it; a \<open><\<close> with no \<open>>\<close> after it stays.
\<close>

function strip_tags :: "string \<Rightarrow> string" where
  "strip_tags [] = []"
| "strip_tags (c # cs) =
     (if c = CHR ''<'' then
        (case dropWhile (\<lambda>d. d \<noteq> CHR ''>'') cs of
           [] \<Rightarrow> c # strip_tags cs
         | d # rest \<Rightarrow> strip_tags rest)
      else c # strip_tags cs)"
  by pat_completeness auto
termination
proof (relation "measure length")
  show "wf (measure length)" by simp
next
  fix c :: char and cs :: string
  show "(cs, c # cs) \<in> measure length" by simp
next
  fix c :: char and cs :: string and d :: char and rest :: string
  assume "dropWhile (\<lambda>d. d \<noteq> CHR ''>'') cs = d # rest"
  then have "length (d # rest) \<le> length cs"
    using length_dropWhile_le [of "\<lambda>d. d \<noteq> CHR ''>''" cs] by simp
  then show "(rest, c # cs) \<in> measure length" by simp
next
  fix c :: char and cs :: string
  show "(cs, c # cs) \<in> measure length" by simp
qed

text \<open>\<open>.replace(/\s+/g, " ")\<close>: every maximal run of white space becomes one space.\<close>

function collapse_ws :: "string \<Rightarrow> string" where
  "collapse_ws [] = []"
| "collapse_ws (c # cs) =
     (if is_space c then CHR '' '' # collapse_ws (dropWhile is_space cs)
      else c # collapse_ws cs)"
  by pat_completeness auto
termination
proof (relation "measure length")
  show "wf (measure length)" by simp
next
  fix c :: char and cs :: string
  have "length (dropWhile is_space cs) \<le> length cs"
    by (rule length_dropWhile_le)
  then show "(dropWhile is_space cs, c # cs) \<in> measure length" by simp
next
  fix c :: char and cs :: string
  show "(cs, c # cs) \<in> measure length" by simp
qed

text \<open>\<open>.trim()\<close>: white space removed at both ends.\<close>

definition trim :: "string \<Rightarrow> string" where
  "trim s = rev (dropWhile is_space (rev (dropWhile is_space s)))"

definition cleanText :: "string \<Rightarrow> string" where
  "cleanText s = trim (collapse_ws (strip_tags s))"

section \<open>Collaborators\<close>

text \<open>
  The embedding model and the vector store are outside the repository. Every call to
  them is written to a trace, with its argument and whether it succeeded; what a call
  answers is a parameter that may depend on how many calls of its kind came before
  (a store can be down for one call and up for the next) and on the argument.
  Console output is not modelled. The pacing delays are trace entries with no effect.
\<close>

type_synonym embedding = "real list"

record metadata =
  md_subject :: json
  md_topic :: json
  md_course :: json
  md_cleanedQuestion :: string

record vector =
  vec_id :: json
  vec_values :: embedding
  vec_metadata :: metadata

record query_args =
  qa_vector :: embedding
  qa_topK :: json
  qa_filter :: "(string \<times> json) list option"
  qa_includeMetadata :: bool

datatype event =
  LoadModel bool
  | RunModel string bool
  | Upsert "vector list" bool
  | Query query_args bool
  | Delay nat

text \<open>
  \<open>embedder\<close> is the module variable of the same name (\<open>True\<close>: not \<open>null\<close>).
  Each route module has its own; a world is the state as one route sees it.
\<close>

record world =
  embedder :: bool
  trace :: "event list"

record env =
  pipeline_ok :: "nat \<Rightarrow> bool"
  run_model :: "nat \<Rightarrow> string \<Rightarrow> embedding option"
  upsert_ok :: "nat \<Rightarrow> vector list \<Rightarrow> bool"
  store_query :: "nat \<Rightarrow> query_args \<Rightarrow> json list option"
  client_ok :: bool
  read_source :: "json option \<Rightarrow> error + json"
  js_runtime :: runtime

fun is_load :: "event \<Rightarrow> bool" where
  "is_load (LoadModel ok) = True"
| "is_load e = False"

fun is_run :: "event \<Rightarrow> bool" where
  "is_run (RunModel t ok) = True"
| "is_run e = False"

fun is_upsert :: "event \<Rightarrow> bool" where
  "is_upsert (Upsert b ok) = True"
| "is_upsert e = False"

fun is_query :: "event \<Rightarrow> bool" where
  "is_query (Query a ok) = True"
| "is_query e = False"

definition calls :: "(event \<Rightarrow> bool) \<Rightarrow> world \<Rightarrow> nat" where
  "calls kind w = length (filter kind (trace w))"

definition log :: "event list \<Rightarrow> world \<Rightarrow> world" where
  "log es w = w\<lparr>trace := trace w @ es\<rparr>"

section \<open>The embedding generator\<close>

text \<open>
  \<open>initEmbedder\<close>: loads the model when the module variable is still \<open>null\<close>.
  The result is the error thrown, if any, and the world afterwards.
\<close>

definition initEmbedder :: "env \<Rightarrow> world \<Rightarrow> error option \<times> world" where
  "initEmbedder env w =
     (if \<not> embedder w then
        (if pipeline_ok env (calls is_load w)
         then (None, (log [LoadModel True] w)\<lparr>embedder := True\<rparr>)
         else (Some LoadFailure, log [LoadModel False] w))
      else (None, w))"

text \<open>The call \<open>embedder(cleanText, {pooling: "mean", normalize: true})\<close>.\<close>

definition invoke_model :: "env \<Rightarrow> world \<Rightarrow> string \<Rightarrow> (error + embedding) \<times> world" where
  "invoke_model env w t =
     (case run_model env (calls is_run w) t of
        None \<Rightarrow> (Inl EmbeddingFailure, log [RunModel t False] w)
      | Some out \<Rightarrow> (Inr out, log [RunModel t True] w))"

text \<open>
  The last three lines of \<open>getEmbedding\<close>: \<open>initEmbedder()\<close>, then the model on the
  cleaned text.
\<close>

definition embed_cleaned :: "env \<Rightarrow> world \<Rightarrow> string \<Rightarrow> (error + embedding) \<times> world" where
  "embed_cleaned env w t =
     (case initEmbedder env w of
        (Some e, w1) \<Rightarrow> (Inl e, w1)
      | (None, w1) \<Rightarrow> invoke_model env w1 t)"

text \<open>
  \<open>getEmbedding(text)\<close>, the same function in both routes. On anything but a string
  \<open>text.replace\<close> is not a function and the call throws a \<open>TypeError\<close>.
\<close>

definition getEmbedding :: "env \<Rightarrow> world \<Rightarrow> json \<Rightarrow> (error + embedding) \<times> world" where
  "getEmbedding env w text =
     (case text of
        JStr s \<Rightarrow>
          (if cleanText s = [] \<or> length (cleanText s) < 3 then (Inl TextTooShort, w)
           else embed_cleaned env w (cleanText s))
      | v \<Rightarrow> (Inl TypeError, w))"

section \<open>Bulk ingestion (\<open>migrate-to/route.js\<close>)\<close>

text \<open>
  A property read on a value that an earlier read has shown not to be \<open>null\<close>.
\<close>

definition prop_of :: "json \<Rightarrow> string \<Rightarrow> json option" where
  "prop_of v k = (case get_prop v k of Inl e \<Rightarrow> None | Inr x \<Rightarrow> x)"

text \<open>
  \<open>doc._id && typeof doc._id === "object" && doc._id.$oid\<close>: the nested identifier
  when the whole condition is truthy.
\<close>

definition wrapped_oid :: "json option \<Rightarrow> json option" where
  "wrapped_oid idv =
     (case idv of
        None \<Rightarrow> None
      | Some v \<Rightarrow>
          (if truthy idv \<and> typeof_object idv \<and> truthy (prop_of v ''$oid'')
           then prop_of v ''$oid'' else None))"

text \<open>
  Lines 100 to 116: the document id. \<open>String(doc._id)\<close> and \<open>String(doc.id)\<close>
  can throw. The last branch evaluates the arguments of \<open>console.warn\<close> before it
  counts the skip: \<open>JSON.stringify(doc._id || doc.id).substring(0, 100)\<close>, and
  \<open>JSON.stringify(undefined)\<close> is \<open>undefined\<close>, on which \<open>.substring\<close> throws
  (on a value it is a string).
\<close>

datatype id_outcome = DocId json | Skip | Throw error

definition extract_docId :: "runtime \<Rightarrow> json \<Rightarrow> id_outcome" where
  "extract_docId rt doc =
     (case get_prop doc ''_id'' of
        Inl e \<Rightarrow> Throw e
      | Inr idv \<Rightarrow>
          (case wrapped_oid idv of
             Some oid \<Rightarrow> DocId oid
           | None \<Rightarrow>
               (if truthy idv then
                  (case to_String_opt rt idv of Inl e \<Rightarrow> Throw e | Inr s \<Rightarrow> DocId (JStr s))
                else if truthy (prop_of doc ''id'') then
                  (case to_String_opt rt (prop_of doc ''id'') of
                     Inl e \<Rightarrow> Throw e
                   | Inr s \<Rightarrow> DocId (JStr s))
                else
                  (case js_or idv (prop_of doc ''id'') of
                     None \<Rightarrow> Throw TypeError
                   | Some v \<Rightarrow> Skip))))"

text \<open>
  The variable \<open>docId\<close> as the \<open>catch\<close> clause finds it: assigned once the id was
  derived, \<open>undefined\<close> when the body threw or skipped before.
\<close>

definition docId_at_catch :: "runtime \<Rightarrow> json \<Rightarrow> json option" where
  "docId_at_catch rt doc =
     (case extract_docId rt doc of DocId i \<Rightarrow> Some i | Skip \<Rightarrow> None | Throw e \<Rightarrow> None)"

text \<open>\<open>doc.cleanedQuestion || doc.question\<close>.\<close>

definition textForEmbedding :: "json \<Rightarrow> json option" where
  "textForEmbedding doc = js_or (prop_of doc ''cleanedQuestion'') (prop_of doc ''question'')"

text \<open>\<open>doc.subject || "unknown"\<close> and its siblings.\<close>

definition or_unknown :: "json option \<Rightarrow> json" where
  "or_unknown v =
     (case v of
        None \<Rightarrow> JStr ''unknown''
      | Some x \<Rightarrow> (if truthy v then x else JStr ''unknown''))"

text \<open>
  \<open>(doc.cleanedQuestion || doc.question).replace(/<[^>]*>/g, "").substring(0, 500)\<close>.
\<close>

definition snippet :: "json \<Rightarrow> error + string" where
  "snippet t = (case t of JStr s \<Rightarrow> Inr (take 500 (strip_tags s)) | v \<Rightarrow> Inl TypeError)"

text \<open>\<open>await index.upsert(batch)\<close>.\<close>

definition upsert :: "env \<Rightarrow> vector list \<Rightarrow> world \<Rightarrow> error option \<times> world" where
  "upsert env b w =
     (if upsert_ok env (calls is_upsert w) b
      then (None, log [Upsert b True] w)
      else (Some StoreFailure, log [Upsert b False] w))"

record ingest_state =
  batch :: "vector list"
  processedCount :: nat
  errorCount :: nat
  skippedCount :: nat
  st_world :: world

text \<open>
  Lines 152 to 167, after \<open>batch.push(vector); processedCount++\<close>: the flush of a
  full batch and the two pacing delays. The comparison \<open>batch.length >= batchSize\<close>
  converts \<open>batchSize\<close> to a number and can throw; so can a rejected upsert. Both
  throw inside the \<open>try\<close> of the loop body.
\<close>

definition flush_and_pace :: "env \<Rightarrow> json \<Rightarrow> ingest_state \<Rightarrow> error option \<times> ingest_state" where
  "flush_and_pace env batchSize s =
     (case to_number (js_runtime env) batchSize of
        Inl e \<Rightarrow> (Some e, s)
      | Inr k \<Rightarrow>
          (if length_ge (length (batch s)) k then
             (case upsert env (batch s) (st_world s) of
                (Some e, w1) \<Rightarrow> (Some e, s\<lparr>st_world := w1\<rparr>)
              | (None, w1) \<Rightarrow>
                  (None, s\<lparr>batch := [],
                           st_world := log (if processedCount s mod 5 = 0 then [Delay 1000, Delay 200]
                                            else [Delay 1000]) w1\<rparr>))
           else
             (None, if processedCount s mod 5 = 0 then s\<lparr>st_world := log [Delay 200] (st_world s)\<rparr>
                    else s)))"

text \<open>
  Lines 121 to 125: no text. The warning
  \<open>`Skipping document ${docId}: No question text found`\<close> converts \<open>docId\<close> to text
  before the skip is counted.
\<close>

definition skip_no_text :: "runtime \<Rightarrow> json \<Rightarrow> ingest_state \<Rightarrow> error option \<times> ingest_state" where
  "skip_no_text rt docId s =
     (case to_String rt docId of
        Inl e \<Rightarrow> (Some e, s)
      | Inr msg \<Rightarrow> (None, s\<lparr>skippedCount := skippedCount s + 1\<rparr>))"

text \<open>
  The body of the \<open>try\<close> block, lines 102 to 167, for one document: the error thrown
  inside it, if any, and the state at that point (what was assigned before a throw
  stays assigned). The output of the model is a flat list of numbers, so
  \<open>embedding[0]\<close> is no array and \<open>embeddingVector\<close> is \<open>embedding\<close>.
\<close>

definition try_body :: "env \<Rightarrow> json \<Rightarrow> json \<Rightarrow> ingest_state \<Rightarrow> error option \<times> ingest_state" where
  "try_body env batchSize doc s =
     (case extract_docId (js_runtime env) doc of
        Throw e \<Rightarrow> (Some e, s)
      | Skip \<Rightarrow> (None, s\<lparr>skippedCount := skippedCount s + 1\<rparr>)
      | DocId docId \<Rightarrow>
          (case textForEmbedding doc of
             None \<Rightarrow> skip_no_text (js_runtime env) docId s
           | Some t \<Rightarrow>
               (if \<not> truthy (Some t) then skip_no_text (js_runtime env) docId s
                else
                  (case getEmbedding env (st_world s) t of
                     (Inl e, w1) \<Rightarrow> (Some e, s\<lparr>st_world := w1\<rparr>)
                   | (Inr embedding, w1) \<Rightarrow>
                       (case snippet t of
                          Inl e \<Rightarrow> (Some e, s\<lparr>st_world := w1\<rparr>)
                        | Inr cq \<Rightarrow>
                            flush_and_pace env batchSize
                              (s\<lparr>batch := batch s @
                                   [\<lparr>vec_id = docId, vec_values = embedding,
                                     vec_metadata =
                                       \<lparr>md_subject = or_unknown (prop_of doc ''subject''),
                                        md_topic = or_unknown (prop_of doc ''topic''),
                                        md_course = or_unknown (prop_of doc ''course''),
                                        md_cleanedQuestion = cq\<rparr>\<rparr>],
                                 processedCount := processedCount s + 1,
                                 st_world := w1\<rparr>))))))"

text \<open>
  One iteration of \<open>for (const doc of questions)\<close>. The \<open>catch\<close> of lines 168 to
  177 first builds \<open>`Error processing document ${docId || "[unknown]"}:`\<close>, then
  counts the error and goes on with the next document. When the conversion of
  \<open>docId\<close> throws, the \<open>catch\<close> clause itself throws: the error leaves the loop
  (\<open>Some\<close> in the result) and the count is not made.
\<close>

definition process_doc :: "env \<Rightarrow> json \<Rightarrow> json \<Rightarrow> ingest_state \<Rightarrow> error option \<times> ingest_state" where
  "process_doc env batchSize doc s =
     (case try_body env batchSize doc s of
        (None, s1) \<Rightarrow> (None, s1)
      | (Some e, s1) \<Rightarrow>
          (case to_String_opt (js_runtime env)
                  (js_or (docId_at_catch (js_runtime env) doc) (Some (JStr ''[unknown]''))) of
             Inl e1 \<Rightarrow> (Some e1, s1)
           | Inr msg \<Rightarrow> (None, s1\<lparr>errorCount := errorCount s1 + 1\<rparr>)))"

text \<open>
  The loop: the error that left it, if any, and the state at the end or at that point.
\<close>

fun run_loop :: "env \<Rightarrow> json \<Rightarrow> json list \<Rightarrow> ingest_state \<Rightarrow> error option \<times> ingest_state" where
  "run_loop env batchSize [] s = (None, s)"
| "run_loop env batchSize (doc # docs) s =
     (case process_doc env batchSize doc s of
        (Some e, s1) \<Rightarrow> (Some e, s1)
      | (None, s1) \<Rightarrow> run_loop env batchSize docs s1)"

text \<open>
  \<open>if (limit) questions = questions.slice(0, limit)\<close>. The slice converts \<open>limit\<close>
  to a number and can throw.
\<close>

definition apply_limit :: "runtime \<Rightarrow> json option \<Rightarrow> json list \<Rightarrow> error + json list" where
  "apply_limit rt limit questions =
     (case limit of
        None \<Rightarrow> Inr questions
      | Some l \<Rightarrow>
          (if truthy limit then
             (case to_number rt l of Inl e \<Rightarrow> Inl e | Inr k \<Rightarrow> Inr (slice_to k questions))
           else Inr questions))"

text \<open>Lines 92 to 95: the empty batch and the three counters at zero.\<close>

definition loop_start :: "world \<Rightarrow> ingest_state" where
  "loop_start w = \<lparr>batch = [], processedCount = 0, errorCount = 0, skippedCount = 0, st_world = w\<rparr>"

record stats =
  totalDocuments :: nat
  totalProcessed :: nat
  errors :: nat
  skipped :: nat
  finalBatchSize :: nat

datatype migrate_response =
  MigrateOk stats \<comment> \<open>\<open>{success: true, message, stats}\<close>\<close>
  | MigrateFailed error \<comment> \<open>\<open>{success: false, error}\<close>, status 500\<close>

definition stats_of :: "json list \<Rightarrow> ingest_state \<Rightarrow> stats" where
  "stats_of questions s =
     \<lparr>totalDocuments = length questions, totalProcessed = processedCount s,
      errors = errorCount s, skipped = skippedCount s, finalBatchSize = length (batch s)\<rparr>"

text \<open>
  Lines 85 to 209, from the array of questions on: the client, the loop, the flush of
  the remainder, the response. What leaves the loop or the flush is caught by the
  outer \<open>catch\<close> and answered with status 500.
\<close>

definition ingest :: "env \<Rightarrow> world \<Rightarrow> json \<Rightarrow> json list \<Rightarrow> migrate_response \<times> world" where
  "ingest env w batchSize questions =
     (if \<not> client_ok env then (MigrateFailed ClientFailure, w)
      else
        (case run_loop env batchSize questions (loop_start w) of
           (Some e, s) \<Rightarrow> (MigrateFailed e, st_world s)
         | (None, s) \<Rightarrow>
             (if 0 < length (batch s) then
                (case upsert env (batch s) (st_world s) of
                   (Some e, w1) \<Rightarrow> (MigrateFailed e, w1)
                 | (None, w1) \<Rightarrow> (MigrateOk (stats_of questions s), w1))
              else (MigrateOk (stats_of questions s), st_world s))))"

text \<open>
  \<open>POST\<close> of the ingestion route. \<open>parsed\<close> is what \<open>request.json()\<close> resolved to
  (\<open>None\<close>: it rejected, and the \<open>catch\<close> of line 37 puts \<open>{}\<close> in its place).
  Destructuring \<open>null\<close> throws. Finding, reading and parsing the file is
  \<open>read_source\<close>, given \<open>jsonFilePath\<close>.
\<close>

definition POST_migrate :: "env \<Rightarrow> world \<Rightarrow> json option \<Rightarrow> migrate_response \<times> world" where
  "POST_migrate env w parsed =
     (let body = (case parsed of None \<Rightarrow> JObj [] | Some b \<Rightarrow> b) in
      case get_prop body ''batchSize'' of
        Inl e \<Rightarrow> (MigrateFailed e, w)
      | Inr bs \<Rightarrow>
          (case read_source env (prop_of body ''jsonFilePath'') of
             Inl e \<Rightarrow> (MigrateFailed e, w)
           | Inr data \<Rightarrow>
               (case data of
                  JArr questions \<Rightarrow>
                    (case apply_limit (js_runtime env) (prop_of body ''limit'') questions of
                       Inl e \<Rightarrow> (MigrateFailed e, w)
                     | Inr limited \<Rightarrow>
                         ingest env w (case bs of None \<Rightarrow> JNum 50 | Some v \<Rightarrow> v) limited)
                | v \<Rightarrow> (MigrateFailed NotAnArray, w))))"

section \<open>Search (the query route)\<close>

text \<open>
  \<open>const filter = {}; if (subject) filter.subject = subject; ...\<close>: the object as
  the list of its properties, in the order they were assigned.
\<close>

definition filter_term :: "string \<Rightarrow> json option \<Rightarrow> (string \<times> json) list" where
  "filter_term k v = (case v of None \<Rightarrow> [] | Some x \<Rightarrow> (if truthy v then [(k, x)] else []))"

definition build_filter :: "json option \<Rightarrow> json option \<Rightarrow> json option \<Rightarrow> (string \<times> json) list" where
  "build_filter subject topic course =
     filter_term ''subject'' subject @ filter_term ''topic'' topic @ filter_term ''course'' course"

text \<open>\<open>Object.keys(filter).length > 0 ? filter : undefined\<close>.\<close>

definition store_filter :: "(string \<times> json) list \<Rightarrow> (string \<times> json) list option" where
  "store_filter f = (if 0 < length f then Some f else None)"

record search_result =
  sr_matches :: "json list"
  sr_total :: nat
  sr_searchQuery :: json
  sr_filters :: "(string \<times> json) list"

datatype search_response =
  SearchOk search_result \<comment> \<open>\<open>{success: true, matches, total, searchQuery, filters}\<close>\<close>
  | BadRequest string \<comment> \<open>\<open>{error}\<close>, status 400\<close>
  | SearchFailed error \<comment> \<open>\<open>{success: false, error}\<close>, status 500\<close>

text \<open>Lines 41 to 73, for a query that passed the check of line 37.\<close>

definition run_search ::
  "env \<Rightarrow> world \<Rightarrow> json \<Rightarrow> json option \<Rightarrow> json option \<Rightarrow> json option \<Rightarrow> json \<Rightarrow> search_response \<times> world" where
  "run_search env w query subject topic course topK =
     (case getEmbedding env w query of
        (Inl e, w1) \<Rightarrow> (SearchFailed e, w1)
      | (Inr queryEmbedding, w1) \<Rightarrow>
          (if \<not> client_ok env then (SearchFailed ClientFailure, w1)
           else
             (let filter_obj = build_filter subject topic course;
                  args = \<lparr>qa_vector = queryEmbedding, qa_topK = topK,
                          qa_filter = store_filter filter_obj,
                          qa_includeMetadata = True\<rparr>
              in case store_query env (calls is_query w1) args of
                   None \<Rightarrow> (SearchFailed StoreFailure, log [Query args False] w1)
                 | Some matches \<Rightarrow>
                     (SearchOk \<lparr>sr_matches = matches, sr_total = length matches,
                                sr_searchQuery = query, sr_filters = filter_obj\<rparr>,
                      log [Query args True] w1))))"

text \<open>
  \<open>POST\<close> of the search route. \<open>parsed\<close> is what \<open>request.json()\<close> resolved to
  (\<open>None\<close>: it rejected). \<open>query.trim\<close> is not a function on a truthy value that is
  not a string.
\<close>

definition POST_search :: "env \<Rightarrow> world \<Rightarrow> json option \<Rightarrow> search_response \<times> world" where
  "POST_search env w parsed =
     (case parsed of
        None \<Rightarrow> (SearchFailed BodyFailure, w)
      | Some body \<Rightarrow>
          (case get_prop body ''query'' of
             Inl e \<Rightarrow> (SearchFailed e, w)
           | Inr query \<Rightarrow>
               (case query of
                  None \<Rightarrow> (BadRequest ''Query is required'', w)
                | Some q \<Rightarrow>
                    (if \<not> truthy query then (BadRequest ''Query is required'', w)
                     else
                       (case q of
                          JStr s \<Rightarrow>
                            (if length (trim s) = 0 then (BadRequest ''Query is required'', w)
                             else run_search env w q (prop_of body ''subject'') (prop_of body ''topic'')
                                    (prop_of body ''course'')
                                    (case prop_of body ''topK'' of None \<Rightarrow> JNum 10 | Some v \<Rightarrow> v))
                        | v \<Rightarrow> (SearchFailed TypeError, w))))))"

section \<open>Notions used by the properties\<close>

text \<open>What a run added to the trace.\<close>

definition new_events :: "world \<Rightarrow> world \<Rightarrow> event list" where
  "new_events w w1 = drop (length (trace w)) (trace w1)"

text \<open>The upserts the store rejected.\<close>

fun is_rejected_upsert :: "event \<Rightarrow> bool" where
  "is_rejected_upsert (Upsert b ok) = (\<not> ok)"
| "is_rejected_upsert e = False"

definition counted :: "ingest_state \<Rightarrow> nat" where
  "counted s = processedCount s + errorCount s + skippedCount s"

definition rejected :: "event list \<Rightarrow> nat" where
  "rejected es = length (filter is_rejected_upsert es)"

text \<open>The filters the store was queried with, one entry for each query.\<close>

fun query_filter :: "event \<Rightarrow> (string \<times> json) list option list" where
  "query_filter (Query a ok) = [qa_filter a]"
| "query_filter e = []"

definition applied_filters :: "world \<Rightarrow> (string \<times> json) list option list" where
  "applied_filters w = concat (map query_filter (trace w))"

definition white_only :: "string \<Rightarrow> bool" where
  "white_only s = list_all is_space s"





section \<open>Concrete collaborators and requests\<close>

text \<open>
  A model that answers every text with the same vector, a store that accepts every
  upsert and answers every query with two matches, and a source file holding \<open>data\<close>.
\<close>

definition env_up :: "json \<Rightarrow> env" where
  "env_up data =
     \<lparr>pipeline_ok = (\<lambda>n. True), run_model = (\<lambda>n t. Some [1, 0]),
      upsert_ok = (\<lambda>n b. True), store_query = (\<lambda>n a. Some [JStr ''m1'', JStr ''m2'']),
      client_ok = True, read_source = (\<lambda>p. Inr data),
      js_runtime = \<lparr>string_to_number = (\<lambda>s. NaN), big_number_text = (\<lambda>n. (CHR ''1'', ''e+21''))\<rparr>\<rparr>"

text \<open>The same, with a store that rejects the first upsert it gets and accepts the later ones.\<close>

definition env_first_upsert_rejected :: "json \<Rightarrow> env" where
  "env_first_upsert_rejected data = (env_up data)\<lparr>upsert_ok := (\<lambda>n b. 0 < n)\<rparr>"

definition fresh :: world where
  "fresh = \<lparr>embedder = False, trace = []\<rparr>"

definition question_doc :: "string \<Rightarrow> string \<Rightarrow> json" where
  "question_doc i q = JObj [(''id'', JStr i), (''question'', JStr q)]"

definition vector_of :: "json \<Rightarrow> string \<Rightarrow> vector" where
  "vector_of i q =
     \<lparr>vec_id = i, vec_values = [1, 0],
      vec_metadata = \<lparr>md_subject = JStr ''unknown'', md_topic = JStr ''unknown'',
                      md_course = JStr ''unknown'', md_cleanedQuestion = q\<rparr>\<rparr>"

section \<open>Basic facts\<close>

subsection \<open>Traces\<close>

lemma log_trace [simp]: "trace (log es w) = trace w @ es"
  by (simp add: log_def)

lemma log_embedder [simp]: "embedder (log es w) = embedder w"
  by (simp add: log_def)

lemma getEmbedding_trace:
  assumes "getEmbedding env w t = (r, w1)"
  shows "\<exists>es. trace w1 = trace w @ es \<and> list_all (\<lambda>e. is_load e \<or> is_run e) es"
  using assms
  by (auto simp: getEmbedding_def embed_cleaned_def initEmbedder_def invoke_model_def
      split: json.splits option.splits if_splits prod.splits)

lemma upsert_trace:
  "upsert env b w = (r, w1) \<Longrightarrow> trace w1 = trace w @ [Upsert b (r = None)]"
  by (auto simp: upsert_def split: if_splits)

lemma new_events_append: "trace w1 = trace w @ es \<Longrightarrow> new_events w w1 = es"
  by (simp add: new_events_def)

lemma embedding_no_query:
  "list_all (\<lambda>e. is_load e \<or> is_run e) es \<Longrightarrow> filter is_query es = []"
  by (induction es) (auto elim: is_load.elims is_run.elims)

lemma embedding_not_query:
  "list_all (\<lambda>e. is_load e \<or> is_run e) es \<Longrightarrow> Query a ok \<notin> set es"
  by (induction es) auto

lemma rejected_embedding:
  "list_all (\<lambda>e. is_load e \<or> is_run e) es \<Longrightarrow> rejected es = 0"
  by (induction es) (auto simp: rejected_def elim: is_load.elims is_run.elims)

lemma upserts_embedding:
  "list_all (\<lambda>e. is_load e \<or> is_run e) es \<Longrightarrow> Upsert b ok \<notin> set es"
  by (induction es) auto

subsection \<open>Normalisation and ids\<close>

lemma dropWhile_all_space:
  "(\<forall>x\<in>set (dropWhile is_space s). is_space x) \<longleftrightarrow> dropWhile is_space s = []"
proof
  assume all: "\<forall>x\<in>set (dropWhile is_space s). is_space x"
  show "dropWhile is_space s = []"
  proof (rule ccontr)
    assume ne: "dropWhile is_space s \<noteq> []"
    then have "\<not> is_space (hd (dropWhile is_space s))" by (rule hd_dropWhile)
    moreover from ne have "hd (dropWhile is_space s) \<in> set (dropWhile is_space s)" by simp
    ultimately show False using all by blast
  qed
qed (auto dest: set_dropWhileD)

lemma trim_empty_iff: "trim s = [] \<longleftrightarrow> white_only s"
  by (simp add: trim_def white_only_def list_all_iff dropWhile_eq_Nil_conv dropWhile_all_space)







subsection \<open>The loop of the ingestion\<close>


lemma flush_and_pace_effect:
  assumes "flush_and_pace env bs s = (r, s1)"
  shows "\<exists>es. trace (st_world s1) = trace (st_world s) @ es \<and>
          set (batch s1) \<subseteq> set (batch s) \<and>
          (\<forall>b ok. Upsert b ok \<in> set es \<longrightarrow> b = batch s) \<and>
          counted s1 = counted s \<and>
          (\<not> isl (to_number (js_runtime env) bs) \<longrightarrow> rejected es = (if r = None then 0 else 1))"
  using assms
  by (auto simp: flush_and_pace_def counted_def rejected_def dest!: upsert_trace
      split: if_splits prod.splits option.splits sum.splits)

lemma skip_no_text_effect:
  assumes "skip_no_text rt i s = (r, s1)"
  shows "st_world s1 = st_world s \<and> batch s1 = batch s \<and>
         counted s1 + (if r = None then 0 else 1) = counted s + 1"
  using assms by (auto simp: skip_no_text_def counted_def split: sum.splits)

lemma try_body_effect:
  assumes "try_body env bs doc s = (r, s1)"
  shows "\<exists>es. trace (st_world s1) = trace (st_world s) @ es \<and>
          (\<forall>v. v \<in> set (batch s1) \<or> (\<exists>b ok. Upsert b ok \<in> set es \<and> v \<in> set b)
             \<longrightarrow> v \<in> set (batch s) \<or> extract_docId (js_runtime env) doc = DocId (vec_id v)) \<and>
          counted s + 1 \<le> counted s1 + (if r = None then 0 else 1) \<and>
          (\<not> isl (to_number (js_runtime env) bs) \<longrightarrow>
             counted s1 + (if r = None then 0 else 1) = counted s + 1 + rejected es)"
proof (cases "extract_docId (js_runtime env) doc")
  case (Throw e)
  with assms show ?thesis by (auto simp: try_body_def counted_def rejected_def)
next
  case Skip
  with assms show ?thesis by (auto simp: try_body_def counted_def rejected_def)
next
  case (DocId i)
  show ?thesis
  proof (cases "truthy (textForEmbedding doc)")
    case False
    with assms DocId have "skip_no_text (js_runtime env) i s = (r, s1)"
      by (auto simp: try_body_def split: option.splits)
    from skip_no_text_effect [OF this] show ?thesis
      by (auto simp: rejected_def)
  next
    case True
    then obtain t where t: "textForEmbedding doc = Some t" by (cases "textForEmbedding doc") auto
    obtain re w1 where ge: "getEmbedding env (st_world s) t = (re, w1)" by force
    from getEmbedding_trace [OF ge] obtain es1 where
      es1: "trace w1 = trace (st_world s) @ es1" "list_all (\<lambda>e. is_load e \<or> is_run e) es1" by blast
    show ?thesis
    proof (cases re)
      case (Inl e)
      with assms DocId True t ge have "r = Some e" "s1 = s\<lparr>st_world := w1\<rparr>"
        by (auto simp: try_body_def)
      with es1 show ?thesis
        by (auto simp: counted_def rejected_embedding upserts_embedding)
    next
      case (Inr emb)
      show ?thesis
      proof (cases "snippet t")
        case (Inl e)
        with assms DocId True t ge Inr have "r = Some e" "s1 = s\<lparr>st_world := w1\<rparr>"
          by (auto simp: try_body_def)
        with es1 show ?thesis
          by (auto simp: counted_def rejected_embedding upserts_embedding)
      next
        case (Inr cq)
        define v0 where "v0 = \<lparr>vec_id = i, vec_values = emb,
            vec_metadata = \<lparr>md_subject = or_unknown (prop_of doc ''subject''),
              md_topic = or_unknown (prop_of doc ''topic''),
              md_course = or_unknown (prop_of doc ''course''),
              md_cleanedQuestion = cq\<rparr>\<rparr>"
        define s0 where "s0 = s\<lparr>batch := batch s @ [v0], processedCount := processedCount s + 1, st_world := w1\<rparr>"
        from assms DocId True t ge \<open>re = Inr emb\<close> Inr have fp: "flush_and_pace env bs s0 = (r, s1)"
          by (simp add: try_body_def s0_def v0_def)
        from flush_and_pace_effect [OF fp] obtain es2 where
          es2: "trace (st_world s1) = trace (st_world s0) @ es2"
            "set (batch s1) \<subseteq> set (batch s0)"
            "\<forall>b ok. Upsert b ok \<in> set es2 \<longrightarrow> b = batch s0"
            "counted s1 = counted s0"
            "\<not> isl (to_number (js_runtime env) bs) \<longrightarrow> rejected es2 = (if r = None then 0 else 1)" by blast
        have tr: "trace (st_world s1) = trace (st_world s) @ (es1 @ es2)"
          using es2(1) es1(1) by (simp add: s0_def)
        have rj: "rejected (es1 @ es2) = rejected es2"
          using rejected_embedding [OF es1(2)] by (simp add: rejected_def)
        have c0: "counted s0 = counted s + 1" by (simp add: counted_def s0_def)
        have cnt1: "counted s + 1 \<le> counted s1 + (if r = None then 0 else 1)"
          using es2(4) c0 by simp
        have cnt2: "\<not> isl (to_number (js_runtime env) bs) \<longrightarrow>
             counted s1 + (if r = None then 0 else 1) = counted s + 1 + rejected (es1 @ es2)"
          using es2(4,5) rj c0 by simp
        have vid: "vec_id v0 = i" by (simp add: v0_def)
        have vecs: "\<forall>v. v \<in> set (batch s1) \<or> (\<exists>b ok. Upsert b ok \<in> set (es1 @ es2) \<and> v \<in> set b)
             \<longrightarrow> v \<in> set (batch s) \<or> extract_docId (js_runtime env) doc = DocId (vec_id v)"
        proof (intro allI impI)
          fix v
          assume "v \<in> set (batch s1) \<or> (\<exists>b ok. Upsert b ok \<in> set (es1 @ es2) \<and> v \<in> set b)"
          then have "v \<in> set (batch s0)"
            using es2(2,3) upserts_embedding [OF es1(2)] by auto
          then show "v \<in> set (batch s) \<or> extract_docId (js_runtime env) doc = DocId (vec_id v)"
            using DocId vid by (auto simp: s0_def)
        qed
        from tr vecs cnt1 cnt2 show ?thesis by blast
      qed
    qed
  qed
qed

lemma process_doc_effect:
  assumes "process_doc env bs doc s = (r, s1)"
  shows "\<exists>es. trace (st_world s1) = trace (st_world s) @ es \<and>
     (\<forall>v. v \<in> set (batch s1) \<or> (\<exists>b ok. Upsert b ok \<in> set es \<and> v \<in> set b)
        \<longrightarrow> v \<in> set (batch s) \<or> extract_docId (js_runtime env) doc = DocId (vec_id v)) \<and>
     (r = None \<longrightarrow> counted s + 1 \<le> counted s1 \<and>
        (\<not> isl (to_number (js_runtime env) bs) \<longrightarrow> counted s1 = counted s + 1 + rejected es))"
proof -
  obtain r0 s0 where tb: "try_body env bs doc s = (r0, s0)" by force
  from try_body_effect [OF tb] obtain es where
    es: "trace (st_world s0) = trace (st_world s) @ es"
      "\<forall>v. v \<in> set (batch s0) \<or> (\<exists>b ok. Upsert b ok \<in> set es \<and> v \<in> set b)
         \<longrightarrow> v \<in> set (batch s) \<or> extract_docId (js_runtime env) doc = DocId (vec_id v)"
      "counted s + 1 \<le> counted s0 + (if r0 = None then 0 else 1)"
      "\<not> isl (to_number (js_runtime env) bs) \<longrightarrow>
         counted s0 + (if r0 = None then 0 else 1) = counted s + 1 + rejected es" by blast
  show ?thesis
  proof (cases r0)
    case None
    with tb assms have "r = None" "s1 = s0" by (auto simp: process_doc_def)
    with es None show ?thesis by auto
  next
    case (Some e)
    with tb assms have
      "(r \<noteq> None \<and> s1 = s0) \<or> (r = None \<and> s1 = s0\<lparr>errorCount := errorCount s0 + 1\<rparr>)"
      by (auto simp: process_doc_def split: sum.splits)
    moreover have "counted (s0\<lparr>errorCount := errorCount s0 + 1\<rparr>) = counted s0 + 1"
      by (simp add: counted_def)
    ultimately show ?thesis using es Some by auto
  qed
qed

lemma run_loop_effect:
  assumes "run_loop env bs docs s = (r, s1)"
  shows "\<exists>es. trace (st_world s1) = trace (st_world s) @ es \<and>
     (\<forall>v. v \<in> set (batch s1) \<or> (\<exists>b ok. Upsert b ok \<in> set es \<and> v \<in> set b)
        \<longrightarrow> v \<in> set (batch s) \<or> (\<exists>doc\<in>set docs. extract_docId (js_runtime env) doc = DocId (vec_id v))) \<and>
     (r = None \<longrightarrow> counted s + length docs \<le> counted s1 \<and>
        (\<not> isl (to_number (js_runtime env) bs) \<longrightarrow> counted s1 = counted s + length docs + rejected es))"
  using assms
proof (induction docs arbitrary: s)
  case Nil
  then show ?case by (simp add: rejected_def)
next
  case (Cons doc docs)
  obtain r0 s0 where pd: "process_doc env bs doc s = (r0, s0)" by force
  from process_doc_effect [OF pd] obtain es1 where
    e1: "trace (st_world s0) = trace (st_world s) @ es1"
      "\<forall>v. v \<in> set (batch s0) \<or> (\<exists>b ok. Upsert b ok \<in> set es1 \<and> v \<in> set b)
         \<longrightarrow> v \<in> set (batch s) \<or> extract_docId (js_runtime env) doc = DocId (vec_id v)"
      "r0 = None \<longrightarrow> counted s + 1 \<le> counted s0 \<and>
         (\<not> isl (to_number (js_runtime env) bs) \<longrightarrow> counted s0 = counted s + 1 + rejected es1)" by blast
  show ?case
  proof (cases r0)
    case (Some e)
    with pd Cons.prems have "r = Some e" "s1 = s0" by auto
    with e1 show ?thesis by auto
  next
    case None
    with pd Cons.prems have rl: "run_loop env bs docs s0 = (r, s1)" by simp
    from Cons.IH [OF rl] obtain es2 where
      e2: "trace (st_world s1) = trace (st_world s0) @ es2"
        "\<forall>v. v \<in> set (batch s1) \<or> (\<exists>b ok. Upsert b ok \<in> set es2 \<and> v \<in> set b)
           \<longrightarrow> v \<in> set (batch s0) \<or> (\<exists>d\<in>set docs. extract_docId (js_runtime env) d = DocId (vec_id v))"
        "r = None \<longrightarrow> counted s0 + length docs \<le> counted s1 \<and>
           (\<not> isl (to_number (js_runtime env) bs) \<longrightarrow> counted s1 = counted s0 + length docs + rejected es2)"
      by blast
    have tr: "trace (st_world s1) = trace (st_world s) @ (es1 @ es2)"
      using e1(1) e2(1) by simp
    have cnt: "r = None \<longrightarrow> counted s + length (doc # docs) \<le> counted s1 \<and>
        (\<not> isl (to_number (js_runtime env) bs) \<longrightarrow>
           counted s1 = counted s + length (doc # docs) + rejected (es1 @ es2))"
      using e1(3) e2(3) None by (auto simp: rejected_def)
    have vecs: "\<forall>v. v \<in> set (batch s1) \<or> (\<exists>b ok. Upsert b ok \<in> set (es1 @ es2) \<and> v \<in> set b)
          \<longrightarrow> v \<in> set (batch s) \<or> (\<exists>d\<in>set (doc # docs). extract_docId (js_runtime env) d = DocId (vec_id v))"
    proof (intro allI impI)
      fix v
      assume "v \<in> set (batch s1) \<or> (\<exists>b ok. Upsert b ok \<in> set (es1 @ es2) \<and> v \<in> set b)"
      then consider "v \<in> set (batch s1) \<or> (\<exists>b ok. Upsert b ok \<in> set es2 \<and> v \<in> set b)"
        | "\<exists>b ok. Upsert b ok \<in> set es1 \<and> v \<in> set b" by auto
      then show "v \<in> set (batch s) \<or> (\<exists>d\<in>set (doc # docs). extract_docId (js_runtime env) d = DocId (vec_id v))"
      proof cases
        case 1
        with e2(2) have "v \<in> set (batch s0) \<or> (\<exists>d\<in>set docs. extract_docId (js_runtime env) d = DocId (vec_id v))"
          by blast
        with e1(2) show ?thesis by auto
      next
        case 2
        with e1(2) show ?thesis by auto
      qed
    qed
    from tr vecs cnt show ?thesis by blast
  qed
qed

lemma ingest_effect:
  assumes "ingest env w bs qs = (resp, w1)"
  shows "\<exists>es. trace w1 = trace w @ es \<and>
     (\<forall>v b ok. Upsert b ok \<in> set es \<and> v \<in> set b
        \<longrightarrow> (\<exists>doc\<in>set qs. extract_docId (js_runtime env) doc = DocId (vec_id v))) \<and>
     (\<forall>st. resp = MigrateOk st \<longrightarrow>
        totalDocuments st = length qs \<and>
        length qs \<le> totalProcessed st + errors st + skipped st \<and>
        (\<not> isl (to_number (js_runtime env) bs) \<longrightarrow>
           totalProcessed st + errors st + skipped st = totalDocuments st + rejected es))"
proof (cases "client_ok env")
  case False
  with assms show ?thesis by (auto simp: ingest_def)
next
  case True
  obtain r s where rl: "run_loop env bs qs (loop_start w) = (r, s)" by force
  from run_loop_effect [OF rl] obtain es where
    es: "trace (st_world s) = trace w @ es"
      "\<forall>v. v \<in> set (batch s) \<or> (\<exists>b ok. Upsert b ok \<in> set es \<and> v \<in> set b)
        \<longrightarrow> (\<exists>doc\<in>set qs. extract_docId (js_runtime env) doc = DocId (vec_id v))"
      "r = None \<longrightarrow> length qs \<le> counted s \<and>
         (\<not> isl (to_number (js_runtime env) bs) \<longrightarrow> counted s = length qs + rejected es)"
    by (auto simp: counted_def loop_start_def)
  show ?thesis
  proof (cases r)
    case (Some e)
    with assms True rl have "resp = MigrateFailed e" "w1 = st_world s"
      by (auto simp: ingest_def)
    with es show ?thesis by auto
  next
    case None
    show ?thesis
    proof (cases "0 < length (batch s)")
      case False
      with assms True rl None have "resp = MigrateOk (stats_of qs s)" "w1 = st_world s"
        by (auto simp: ingest_def)
      with es None show ?thesis by (auto simp: stats_of_def counted_def)
    next
      case nonempty: True
      obtain r2 w2 where up: "upsert env (batch s) (st_world s) = (r2, w2)" by force
      from upsert_trace [OF up] have tr2: "trace w2 = trace w @ (es @ [Upsert (batch s) (r2 = None)])"
        using es(1) by simp
      from assms True rl None nonempty up have res: "w1 = w2"
        "resp = (case r2 of Some e \<Rightarrow> MigrateFailed e | None \<Rightarrow> MigrateOk (stats_of qs s))"
        by (auto simp: ingest_def split: option.splits)
      have vecs: "\<forall>v b ok. Upsert b ok \<in> set (es @ [Upsert (batch s) (r2 = None)]) \<and> v \<in> set b
          \<longrightarrow> (\<exists>doc\<in>set qs. extract_docId (js_runtime env) doc = DocId (vec_id v))"
        using es(2) by auto
      have st: "\<forall>st. resp = MigrateOk st \<longrightarrow>
          totalDocuments st = length qs \<and>
          length qs \<le> totalProcessed st + errors st + skipped st \<and>
          (\<not> isl (to_number (js_runtime env) bs) \<longrightarrow>
             totalProcessed st + errors st + skipped st
               = totalDocuments st + rejected (es @ [Upsert (batch s) (r2 = None)]))"
        using res(2) es(3) None by (auto simp: stats_of_def counted_def rejected_def split: option.splits)
      from tr2 vecs st res(1) show ?thesis by blast
    qed
  qed
qed

subsection \<open>The search route\<close>

lemma filter_term_set:
  "(k', x) \<in> set (filter_term k v) \<longleftrightarrow> k' = k \<and> v = Some x \<and> truthy v"
  by (auto simp: filter_term_def split: option.splits)

lemma filter_term_keys: "set (map fst (filter_term k v)) \<subseteq> {k}"
  by (auto simp: filter_term_def split: option.splits)

lemma filter_term_distinct: "distinct (map fst (filter_term k v))"
  by (auto simp: filter_term_def split: option.splits)

lemma filter_term_empty: "filter_term k v = [] \<longleftrightarrow> \<not> truthy v"
  by (cases v) (auto simp: filter_term_def)

lemma build_filter_empty:
  "build_filter s t c = [] \<longleftrightarrow> \<not> truthy s \<and> \<not> truthy t \<and> \<not> truthy c"
  by (simp add: build_filter_def filter_term_empty)

lemma build_filter_distinct: "distinct (map fst (build_filter s t c))"
  by (auto simp: build_filter_def filter_term_distinct filter_term_set)

lemma build_filter_set:
  "(k, x) \<in> set (build_filter (prop_of body ''subject'') (prop_of body ''topic'') (prop_of body ''course''))
     \<longleftrightarrow> k \<in> {''subject'', ''topic'', ''course''} \<and> prop_of body k = Some x \<and> truthy (Some x)"
  by (auto simp: build_filter_def filter_term_set)

lemma run_search_effect:
  assumes "run_search env w q subject topic course topK = (resp, w1)"
  shows "(\<exists>e es. resp = SearchFailed e \<and> trace w1 = trace w @ es \<and> list_all (\<lambda>e. is_load e \<or> is_run e) es) \<or>
         (\<exists>es emb ok. trace w1 = trace w @ es @
              [Query \<lparr>qa_vector = emb, qa_topK = topK,
                      qa_filter = store_filter (build_filter subject topic course),
                      qa_includeMetadata = True\<rparr> ok] \<and>
            list_all (\<lambda>e. is_load e \<or> is_run e) es \<and>
            (case store_query env (calls is_query w)
                    \<lparr>qa_vector = emb, qa_topK = topK,
                      qa_filter = store_filter (build_filter subject topic course),
                      qa_includeMetadata = True\<rparr> of
               None \<Rightarrow> resp = SearchFailed StoreFailure \<and> \<not> ok
             | Some ms \<Rightarrow> ok \<and> resp = SearchOk \<lparr>sr_matches = ms, sr_total = length ms, sr_searchQuery = q,
                                  sr_filters = build_filter subject topic course\<rparr>))"
proof -
  obtain re w2 where ge: "getEmbedding env w q = (re, w2)" by force
  from getEmbedding_trace [OF ge] obtain es where
    es: "trace w2 = trace w @ es" "list_all (\<lambda>e. is_load e \<or> is_run e) es" by blast
  have q: "calls is_query w2 = calls is_query w"
    using es by (simp add: calls_def embedding_no_query)
  show ?thesis
  proof (cases re)
    case (Inl e)
    with assms ge es show ?thesis by (auto simp: run_search_def)
  next
    case (Inr emb)
    show ?thesis
    proof (cases "client_ok env")
      case False
      with assms ge Inr es show ?thesis by (auto simp: run_search_def)
    next
      case True
      define args where "args = \<lparr>qa_vector = emb, qa_topK = topK,
                      qa_filter = store_filter (build_filter subject topic course),
                      qa_includeMetadata = True\<rparr>"
      define ok where "ok = (store_query env (calls is_query w) args \<noteq> None)"
      from assms ge Inr True q have res:
        "(resp, w1) = (case store_query env (calls is_query w) args of
             None \<Rightarrow> (SearchFailed StoreFailure, log [Query args False] w2)
           | Some ms \<Rightarrow> (SearchOk \<lparr>sr_matches = ms, sr_total = length ms, sr_searchQuery = q,
                                  sr_filters = build_filter subject topic course\<rparr>,
                         log [Query args True] w2))"
        unfolding args_def by (simp add: run_search_def Let_def)
      then have tr: "trace w1 = trace w @ es @ [Query args ok]"
        using es(1) by (auto simp: ok_def split: option.splits)
      from res have out: "case store_query env (calls is_query w) args of
               None \<Rightarrow> resp = SearchFailed StoreFailure \<and> \<not> ok
             | Some ms \<Rightarrow> ok \<and> resp = SearchOk \<lparr>sr_matches = ms, sr_total = length ms, sr_searchQuery = q,
                                  sr_filters = build_filter subject topic course\<rparr>"
        by (auto simp: ok_def split: option.splits)
      from tr es(2) out show ?thesis
        unfolding args_def by blast
    qed
  qed
qed

lemma store_filter_None: "store_filter f = None \<longleftrightarrow> f = []"
  by (simp add: store_filter_def)

lemma store_filter_Some: "store_filter f = Some g \<longleftrightarrow> f \<noteq> [] \<and> g = f"
  by (auto simp: store_filter_def)

lemma POST_search_cases:
  assumes "POST_search env w (Some body) = (resp, w1)"
  shows "(w1 = w \<and> (\<forall>r. resp \<noteq> SearchOk r)) \<or>
         (\<exists>q. prop_of body ''query'' = Some q \<and>
            run_search env w q (prop_of body ''subject'') (prop_of body ''topic'') (prop_of body ''course'')
              (case prop_of body ''topK'' of None \<Rightarrow> JNum 10 | Some v \<Rightarrow> v) = (resp, w1))"
  using assms
  by (auto simp: POST_search_def prop_of_def split: sum.splits option.splits if_splits json.splits)

section \<open>Properties of the embedding generator and of the search route\<close>

text \<open>
  Claim C5. A search request whose query text is absent, empty (or any other value
  that is not truthy) or made of white space only is answered with status 400
  (\<open>Query is required\<close>), and the world is the one before the request: nothing was
  embedded and the store was not called.
\<close>

theorem blank_query_rejected_before_any_call:
  assumes "get_prop body ''query'' = Inr q"
    and "\<not> truthy q \<or> (\<exists>s. q = Some (JStr s) \<and> white_only s)"
  shows "POST_search env w (Some body) = (BadRequest ''Query is required'', w)"
  using assms by (auto simp: POST_search_def trim_empty_iff split: option.splits)

theorem blank_query_rejected_witness:
  "white_only ''   '' \<and>
   POST_search (env_up JNull) fresh (Some (JObj [(''query'', JStr ''   ''), (''subject'', JStr ''Math'')]))
     = (BadRequest ''Query is required'', fresh)"
proof -
  have q: "get_prop (JObj [(''query'', JStr ''   ''), (''subject'', JStr ''Math'')]) ''query''
             = Inr (Some (JStr ''   ''))"
    by simp
  have ws: "white_only ''   ''"
    by (simp add: white_only_def is_space_def)
  then have "\<not> truthy (Some (JStr ''   '')) \<or> (\<exists>s. Some (JStr ''   '') = Some (JStr s) \<and> white_only s)"
    by simp
  from blank_query_rejected_before_any_call [OF q this, of "env_up JNull" fresh] ws show ?thesis
    by (intro conjI)
qed

text \<open>
  Claim C7. On a string, \<open>getEmbedding\<close> throws \<open>Text too short after cleaning\<close>
  exactly when the cleaned text (tags removed, runs of white space collapsed to one
  space, trimmed) is empty or shorter than three characters, and then nothing is
  called. Otherwise it goes on to the embedder with the cleaned text: once the embedder
  is there (loaded before, or loading succeeds) the model is run on the cleaned text,
  and the model is never run on any other text.
\<close>

theorem too_short_iff_clean_text_below_three:
  "(fst (getEmbedding env w (JStr s)) = Inl TextTooShort
      \<longleftrightarrow> cleanText s = [] \<or> length (cleanText s) < 3) \<and>
   (cleanText s = [] \<or> length (cleanText s) < 3 \<longrightarrow> snd (getEmbedding env w (JStr s)) = w) \<and>
   (\<not> (cleanText s = [] \<or> length (cleanText s) < 3) \<longrightarrow>
      getEmbedding env w (JStr s) = embed_cleaned env w (cleanText s) \<and>
      (embedder w \<or> pipeline_ok env (calls is_load w) \<longrightarrow>
         RunModel (cleanText s) (run_model env (calls is_run w) (cleanText s) \<noteq> None)
           \<in> set (new_events w (snd (getEmbedding env w (JStr s)))))) \<and>
   (\<forall>t ok. RunModel t ok \<in> set (new_events w (snd (getEmbedding env w (JStr s))))
      \<longrightarrow> t = cleanText s)"
  by (auto simp: getEmbedding_def embed_cleaned_def initEmbedder_def invoke_model_def
      new_events_def calls_def split: option.splits)

theorem too_short_witness:
  "cleanText ''<b>Hi</b>   there '' = ''Hi there'' \<and>
   fst (getEmbedding (env_up JNull) fresh (JStr ''<b>Hi</b>   there '')) \<noteq> Inl TextTooShort \<and>
   RunModel ''Hi there'' True
     \<in> set (new_events fresh (snd (getEmbedding (env_up JNull) fresh (JStr ''<b>Hi</b>   there '')))) \<and>
   cleanText '' <i>x</i> '' = ''x'' \<and>
   fst (getEmbedding (env_up JNull) fresh (JStr '' <i>x</i> '')) = Inl TextTooShort"
proof -
  let ?E = "env_up JNull"
  have c1: "cleanText ''<b>Hi</b>   there '' = ''Hi there''" by code_simp
  have c2: "cleanText '' <i>x</i> '' = ''x''" by code_simp
  have long: "\<not> (cleanText ''<b>Hi</b>   there '' = [] \<or> length (cleanText ''<b>Hi</b>   there '') < 3)"
    by (simp add: c1)
  have short: "cleanText '' <i>x</i> '' = [] \<or> length (cleanText '' <i>x</i> '') < 3"
    by (simp add: c2)
  have ld: "embedder fresh \<or> pipeline_ok ?E (calls is_load fresh)" by (simp add: env_up_def)
  have rn: "run_model ?E (calls is_run fresh) ''Hi there'' \<noteq> None" by (simp add: env_up_def)
  note long_case = too_short_iff_clean_text_below_three [of ?E fresh "''<b>Hi</b>   there ''"]
  note short_case = too_short_iff_clean_text_below_three [of ?E fresh "'' <i>x</i> ''"]
  from long_case long have a: "fst (getEmbedding ?E fresh (JStr ''<b>Hi</b>   there '')) \<noteq> Inl TextTooShort"
    by blast
  from long_case long ld have
    "RunModel (cleanText ''<b>Hi</b>   there '')
        (run_model ?E (calls is_run fresh) (cleanText ''<b>Hi</b>   there '') \<noteq> None)
       \<in> set (new_events fresh (snd (getEmbedding ?E fresh (JStr ''<b>Hi</b>   there ''))))"
    by blast
  with rn have b: "RunModel ''Hi there'' True
       \<in> set (new_events fresh (snd (getEmbedding ?E fresh (JStr ''<b>Hi</b>   there ''))))"
    by (simp add: c1)
  from short_case short have c: "fst (getEmbedding ?E fresh (JStr '' <i>x</i> '')) = Inl TextTooShort"
    by blast
  from c1 a b c2 c show ?thesis by blast
qed

text \<open>
  Claim C6. Whenever the search route queries the store, the filter it passes has one
  term for each of \<open>subject\<close>, \<open>topic\<close> and \<open>course\<close> that the request holds with
  a truthy value (for a string: a non-empty one), with the value of the request, and
  no other term; when none of the three is there with a truthy value the store gets
  \<open>undefined\<close> (\<open>None\<close>) and never the empty object.
\<close>

theorem store_filter_has_exactly_requested_terms:
  assumes "POST_search env w (Some body) = (resp, w1)"
    and "Query args ok \<in> set (new_events w w1)"
  shows "(qa_filter args = None \<longleftrightarrow>
            \<not> truthy (prop_of body ''subject'') \<and> \<not> truthy (prop_of body ''topic'') \<and>
            \<not> truthy (prop_of body ''course'')) \<and>
         (\<forall>f. qa_filter args = Some f \<longrightarrow>
            f \<noteq> [] \<and> distinct (map fst f) \<and>
            (\<forall>k x. (k, x) \<in> set f \<longleftrightarrow>
               k \<in> {''subject'', ''topic'', ''course''} \<and> prop_of body k = Some x \<and> truthy (Some x)))"
proof -
  let ?f = "build_filter (prop_of body ''subject'') (prop_of body ''topic'') (prop_of body ''course'')"
  from POST_search_cases [OF assms(1)] assms(2) obtain q where
    rs: "run_search env w q (prop_of body ''subject'') (prop_of body ''topic'') (prop_of body ''course'')
              (case prop_of body ''topK'' of None \<Rightarrow> JNum 10 | Some v \<Rightarrow> v) = (resp, w1)"
    by (auto simp: new_events_def)
  from run_search_effect [OF rs] assms(2) have "qa_filter args = store_filter ?f"
    by (auto simp: new_events_append embedding_not_query)
  then show ?thesis
    by (auto simp: store_filter_None store_filter_Some build_filter_empty build_filter_distinct
        build_filter_set)
qed

theorem store_filter_witness:
  "Query \<lparr>qa_vector = [1, 0], qa_topK = JNum 10, qa_filter = Some [(''subject'', JStr ''Math'')],
           qa_includeMetadata = True\<rparr> True
     \<in> set (new_events fresh
          (snd (POST_search (env_up JNull) fresh
             (Some (JObj [(''query'', JStr ''algebra''), (''subject'', JStr ''Math''), (''topic'', JStr [])]))))) \<and>
   truthy (prop_of (JObj [(''query'', JStr ''algebra''), (''subject'', JStr ''Math''), (''topic'', JStr [])]) ''subject'') \<and>
   distinct (map fst [(''subject'', JStr ''Math'')])"
proof -
  let ?body = "JObj [(''query'', JStr ''algebra''), (''subject'', JStr ''Math''), (''topic'', JStr [])]"
  let ?args = "\<lparr>qa_vector = [1, 0], qa_topK = JNum 10, qa_filter = Some [(''subject'', JStr ''Math'')],
           qa_includeMetadata = True\<rparr>"
  let ?w1 = "\<lparr>embedder = True, trace = [LoadModel True, RunModel ''algebra'' True, Query ?args True]\<rparr>"
  let ?r = "\<lparr>sr_matches = [JStr ''m1'', JStr ''m2''], sr_total = 2, sr_searchQuery = JStr ''algebra'',
             sr_filters = [(''subject'', JStr ''Math'')]\<rparr>"
  have run: "POST_search (env_up JNull) fresh (Some ?body) = (SearchOk ?r, ?w1)"
    by code_simp
  have ev: "Query ?args True \<in> set (new_events fresh ?w1)"
    by (simp add: new_events_def fresh_def)
  from store_filter_has_exactly_requested_terms [OF run ev]
  have "qa_filter ?args = None \<longleftrightarrow>
          \<not> truthy (prop_of ?body ''subject'') \<and> \<not> truthy (prop_of ?body ''topic'') \<and>
          \<not> truthy (prop_of ?body ''course'')"
    and "\<forall>f. qa_filter ?args = Some f \<longrightarrow> f \<noteq> [] \<and> distinct (map fst f) \<and>
            (\<forall>k x. (k, x) \<in> set f \<longleftrightarrow>
               k \<in> {''subject'', ''topic'', ''course''} \<and> prop_of ?body k = Some x \<and> truthy (Some x))"
    by (rule conjunct1, rule conjunct2)
  then have "distinct (map fst [(''subject'', JStr ''Math'')])"
    and "truthy (prop_of ?body ''subject'')"
    by (simp_all add: prop_of_def)
  with ev show ?thesis by (simp only: run snd_conv simp_thms)
qed

text \<open>
  Claim C8, as stated, fails where the request asks for no filter: the response
  carries the empty filter object, while the store was queried with no filter at all.
\<close>

theorem response_filter_differs_from_applied_filter:
  "fst (POST_search (env_up JNull) fresh (Some (JObj [(''query'', JStr ''algebra'')])))
     = SearchOk \<lparr>sr_matches = [JStr ''m1'', JStr ''m2''], sr_total = 2,
                 sr_searchQuery = JStr ''algebra'', sr_filters = []\<rparr> \<and>
   applied_filters (snd (POST_search (env_up JNull) fresh (Some (JObj [(''query'', JStr ''algebra'')]))))
     = [None]"
  by code_simp

text \<open>
  Claim C8, amended. A successful search ends with one store query that succeeded. The
  response holds the matches of that query as the store gave them, their number, the
  query text of the request as it came, and the filter object built from the request.
  That object is what the store was queried with when it has a term; when it has none
  the store was queried with no filter.
\<close>

theorem search_response_echoes_store_result:
  assumes "POST_search env w (Some body) = (SearchOk r, w1)"
  shows "\<exists>args es. new_events w w1 = es @ [Query args True] \<and>
           list_all (\<lambda>e. is_load e \<or> is_run e) es \<and>
           store_query env (calls is_query w) args = Some (sr_matches r) \<and>
           sr_total r = length (sr_matches r) \<and>
           prop_of body ''query'' = Some (sr_searchQuery r) \<and>
           sr_filters r = build_filter (prop_of body ''subject'') (prop_of body ''topic'') (prop_of body ''course'') \<and>
           qa_filter args = (if sr_filters r = [] then None else Some (sr_filters r))"
proof -
  let ?f = "build_filter (prop_of body ''subject'') (prop_of body ''topic'') (prop_of body ''course'')"
  let ?k = "case prop_of body ''topK'' of None \<Rightarrow> JNum 10 | Some v \<Rightarrow> v"
  from POST_search_cases [OF assms] obtain q where
    q: "prop_of body ''query'' = Some q" and
    rs: "run_search env w q (prop_of body ''subject'') (prop_of body ''topic'') (prop_of body ''course'') ?k
           = (SearchOk r, w1)"
    by auto
  from run_search_effect [OF rs] obtain es emb ok where
    tr: "trace w1 = trace w @ es @ [Query \<lparr>qa_vector = emb, qa_topK = ?k, qa_filter = store_filter ?f,
                      qa_includeMetadata = True\<rparr> ok]" and
    es: "list_all (\<lambda>e. is_load e \<or> is_run e) es" and
    out: "case store_query env (calls is_query w)
                    \<lparr>qa_vector = emb, qa_topK = ?k, qa_filter = store_filter ?f, qa_includeMetadata = True\<rparr> of
               None \<Rightarrow> SearchOk r = SearchFailed StoreFailure \<and> \<not> ok
             | Some ms \<Rightarrow> ok \<and> SearchOk r = SearchOk \<lparr>sr_matches = ms, sr_total = length ms, sr_searchQuery = q,
                                  sr_filters = ?f\<rparr>"
    by auto
  define args where "args = \<lparr>qa_vector = emb, qa_topK = ?k, qa_filter = store_filter ?f,
                      qa_includeMetadata = True\<rparr>"
  from out obtain ms where
    ms: "store_query env (calls is_query w) args = Some ms" "ok"
      "r = \<lparr>sr_matches = ms, sr_total = length ms, sr_searchQuery = q, sr_filters = ?f\<rparr>"
    unfolding args_def by (auto split: option.splits)
  have ne: "new_events w w1 = es @ [Query args True]"
    using tr ms(2) by (simp add: new_events_def args_def)
  have flt: "qa_filter args = (if sr_filters r = [] then None else Some (sr_filters r))"
    by (simp add: args_def ms(3) store_filter_def)
  from ne es ms q flt show ?thesis by auto
qed

theorem search_response_witness:
  "POST_search (env_up JNull) fresh
      (Some (JObj [(''query'', JStr '' algebra ''), (''course'', JStr ''CAT'')]))
     = (SearchOk \<lparr>sr_matches = [JStr ''m1'', JStr ''m2''], sr_total = 2,
                   sr_searchQuery = JStr '' algebra '', sr_filters = [(''course'', JStr ''CAT'')]\<rparr>,
        \<lparr>embedder = True,
         trace = [LoadModel True, RunModel ''algebra'' True,
                  Query \<lparr>qa_vector = [1, 0], qa_topK = JNum 10,
                         qa_filter = Some [(''course'', JStr ''CAT'')], qa_includeMetadata = True\<rparr> True]\<rparr>) \<and>
   sr_total \<lparr>sr_matches = [JStr ''m1'', JStr ''m2''], sr_total = 2,
             sr_searchQuery = JStr '' algebra '', sr_filters = [(''course'', JStr ''CAT'')]\<rparr>
     = length [JStr ''m1'', JStr ''m2'']"
proof -
  let ?body = "JObj [(''query'', JStr '' algebra ''), (''course'', JStr ''CAT'')]"
  let ?r = "\<lparr>sr_matches = [JStr ''m1'', JStr ''m2''], sr_total = 2,
                   sr_searchQuery = JStr '' algebra '', sr_filters = [(''course'', JStr ''CAT'')]\<rparr>"
  let ?w1 = "\<lparr>embedder = True,
         trace = [LoadModel True, RunModel ''algebra'' True,
                  Query \<lparr>qa_vector = [1, 0], qa_topK = JNum 10,
                         qa_filter = Some [(''course'', JStr ''CAT'')], qa_includeMetadata = True\<rparr> True]\<rparr>"
  have run: "POST_search (env_up JNull) fresh (Some ?body) = (SearchOk ?r, ?w1)"
    by code_simp
  from search_response_echoes_store_result [OF run]
  have "sr_total ?r = length (sr_matches ?r)" by (elim exE conjE)
  with run show ?thesis by (simp only: search_result.simps simp_thms)
qed

section \<open>Properties of the bulk ingestion\<close>

subsection \<open>What the counters add up to\<close>

text \<open>
  In a run that ends with a success response every document was counted at least once.
  When \<open>batchSize\<close> converts to a number, the three counters add up to the number of
  documents plus the number of upserts the store rejected during the run: a rejected
  upsert of a full batch is caught by the \<open>catch\<close> of the loop body, after the
  document was counted as processed.
\<close>

lemma stats_sum_law:
  assumes "ingest env w bs qs = (MigrateOk st, w1)"
    and "\<not> isl (to_number (js_runtime env) bs)"
  shows "totalDocuments st = length qs \<and>
         totalProcessed st + errors st + skipped st
           = totalDocuments st + rejected (new_events w w1)"
proof -
  from ingest_effect [OF assms(1)] assms(2) obtain es where
    "trace w1 = trace w @ es"
    "totalDocuments st = length qs \<and>
     totalProcessed st + errors st + skipped st = totalDocuments st + rejected es"
    by blast
  then show ?thesis by (simp add: new_events_def)
qed

lemma every_document_counted:
  assumes "ingest env w bs qs = (MigrateOk st, w1)"
  shows "totalDocuments st = length qs \<and> length qs \<le> totalProcessed st + errors st + skipped st"
  using ingest_effect [OF assms] by blast

text \<open>
  A document in which \<open>_id\<close> is not truthy and \<open>id\<close> is not there is counted
  as an error; one in which \<open>id\<close> is there with a value that is not truthy is counted
  as skipped. Neither reaches the embedder.
\<close>

lemma no_id_outcome:
  assumes "\<not> truthy (map_of kvs ''_id'')" and "\<not> truthy (map_of kvs ''id'')"
  shows "extract_docId rt (JObj kvs) = (if map_of kvs ''id'' = None then Throw TypeError else Skip)"
proof -
  from assms(1) have "wrapped_oid (map_of kvs ''_id'') = None"
    by (auto simp: wrapped_oid_def split: option.splits)
  with assms show ?thesis
    by (auto simp: extract_docId_def prop_of_def js_or_def)
qed

lemma no_id_counted:
  assumes "\<not> truthy (map_of kvs ''_id'')" and "\<not> truthy (map_of kvs ''id'')"
  shows "process_doc env bs (JObj kvs) s =
           (None, if map_of kvs ''id'' = None then s\<lparr>errorCount := errorCount s + 1\<rparr>
                  else s\<lparr>skippedCount := skippedCount s + 1\<rparr>)"
  by (simp add: process_doc_def try_body_def docId_at_catch_def js_or_def to_String_def
      no_id_outcome [OF assms])

text \<open>A rejected upsert of the remainder ends the run with an error response.\<close>

lemma final_flush_failure_fails_run:
  assumes "client_ok env"
    and "run_loop env bs qs (loop_start w) = (None, s)"
    and "batch s \<noteq> []"
    and "\<not> upsert_ok env (calls is_upsert (st_world s)) (batch s)"
  shows "fst (ingest env w bs qs) = MigrateFailed StoreFailure"
  using assms by (simp add: ingest_def upsert_def)

subsection \<open>Counters, failed upserts, ids and the limit\<close>

text \<open>
  Claim C1. The run below returns a success response in which the counters add up to
  2 for 1 document: the store rejects the upsert of the full batch, the document,
  already counted as processed, is counted as an error as well, and the remainder
  flush then succeeds.
\<close>

theorem stats_sum_exceeds_total_after_rejected_flush:
  "POST_migrate (env_first_upsert_rejected (JArr [question_doc ''1'' ''What is 2+2?'']))
     fresh (Some (JObj [(''batchSize'', JNum 1)]))
   = (MigrateOk \<lparr>totalDocuments = 1, totalProcessed = 1, errors = 1, skipped = 0, finalBatchSize = 1\<rparr>,
      \<lparr>embedder = True,
       trace = [LoadModel True, RunModel ''What is 2+2?'' True,
                Upsert [vector_of (JStr ''1'') ''What is 2+2?''] False,
                Upsert [vector_of (JStr ''1'') ''What is 2+2?''] True]\<rparr>)"
  by code_simp

text \<open>
  Claim C2. A document with neither \<open>_id\<close> nor \<open>id\<close> is not embedded, but it is
  counted in \<open>errors\<close> and not in \<open>skipped\<close>: the argument of the warning throws
  before \<open>skippedCount++\<close> is reached.
\<close>

theorem record_without_id_counted_as_error:
  "POST_migrate (env_up (JArr [JObj [(''question'', JStr ''What is 2+2?'')]])) fresh (Some (JObj []))
   = (MigrateOk \<lparr>totalDocuments = 1, totalProcessed = 0, errors = 1, skipped = 0, finalBatchSize = 0\<rparr>,
      fresh)"
  by code_simp

text \<open>
  Claim C3. The store rejects the upsert of the first full batch. The run goes on: the
  second document is embedded, the batch, now of two vectors, is sent again and
  accepted, and the response is a success.
\<close>

theorem run_continues_after_rejected_flush:
  "POST_migrate (env_first_upsert_rejected
       (JArr [question_doc ''1'' ''What is 2+2?'', question_doc ''2'' ''What is 3+3?'']))
     fresh (Some (JObj [(''batchSize'', JNum 1)]))
   = (MigrateOk \<lparr>totalDocuments = 2, totalProcessed = 2, errors = 1, skipped = 0, finalBatchSize = 0\<rparr>,
      \<lparr>embedder = True,
       trace = [LoadModel True, RunModel ''What is 2+2?'' True,
                Upsert [vector_of (JStr ''1'') ''What is 2+2?''] False,
                RunModel ''What is 3+3?'' True,
                Upsert [vector_of (JStr ''1'') ''What is 2+2?'', vector_of (JStr ''2'') ''What is 3+3?''] True,
                Delay 1000]\<rparr>)"
  by code_simp







text \<open>
  Claim C10. With a \<open>limit\<close> that is not truthy (\<open>0\<close>, \<open>null\<close>, \<open>false\<close>, the
  empty string, or none at all) the array is not cut: the run is the ingestion of all
  the documents of the source, and in a success response \<open>totalDocuments\<close> is their
  number and every one of them was counted as processed, as an error or as skipped.
\<close>

theorem falsy_limit_no_truncation:
  assumes "body = (case parsed of None \<Rightarrow> JObj [] | Some b \<Rightarrow> b)"
    and "get_prop body ''batchSize'' = Inr bs"
    and "\<not> truthy (prop_of body ''limit'')"
    and "read_source env (prop_of body ''jsonFilePath'') = Inr (JArr qs)"
  shows "apply_limit (js_runtime env) (prop_of body ''limit'') qs = Inr qs \<and>
         POST_migrate env w parsed = ingest env w (case bs of None \<Rightarrow> JNum 50 | Some v \<Rightarrow> v) qs \<and>
         (\<forall>st w1. POST_migrate env w parsed = (MigrateOk st, w1) \<longrightarrow>
            totalDocuments st = length qs \<and>
            length qs \<le> totalProcessed st + errors st + skipped st)"
proof -
  have lim: "apply_limit (js_runtime env) (prop_of body ''limit'') qs = Inr qs"
    using assms(3) by (auto simp: apply_limit_def split: option.splits)
  have run: "POST_migrate env w parsed = ingest env w (case bs of None \<Rightarrow> JNum 50 | Some v \<Rightarrow> v) qs"
    using assms(1,2,4) lim by (simp add: POST_migrate_def Let_def)
  have "\<forall>st w1. POST_migrate env w parsed = (MigrateOk st, w1) \<longrightarrow>
          totalDocuments st = length qs \<and> length qs \<le> totalProcessed st + errors st + skipped st"
    unfolding run using every_document_counted by blast
  with lim run show ?thesis by blast
qed

theorem falsy_limit_witness:
  "\<not> truthy (prop_of (JObj [(''limit'', JNum 0), (''batchSize'', JNum 10)]) ''limit'') \<and>
   POST_migrate (env_up (JArr [question_doc ''1'' ''What is 2+2?'', question_doc ''2'' ''x'']))
      fresh (Some (JObj [(''limit'', JNum 0), (''batchSize'', JNum 10)]))
     = (MigrateOk \<lparr>totalDocuments = 2, totalProcessed = 1, errors = 1, skipped = 0, finalBatchSize = 1\<rparr>,
        \<lparr>embedder = True,
         trace = [LoadModel True, RunModel ''What is 2+2?'' True,
                  Upsert [vector_of (JStr ''1'') ''What is 2+2?''] True]\<rparr>) \<and>
   totalDocuments \<lparr>totalDocuments = 2, totalProcessed = 1, errors = 1, skipped = 0, finalBatchSize = 1\<rparr>
     = length [question_doc ''1'' ''What is 2+2?'', question_doc ''2'' ''x''] \<and>
   length [question_doc ''1'' ''What is 2+2?'', question_doc ''2'' ''x'']
     \<le> totalProcessed \<lparr>totalDocuments = 2, totalProcessed = 1, errors = 1, skipped = 0, finalBatchSize = 1\<rparr>
       + errors \<lparr>totalDocuments = 2, totalProcessed = 1, errors = 1, skipped = 0, finalBatchSize = 1\<rparr>
       + skipped \<lparr>totalDocuments = 2, totalProcessed = 1, errors = 1, skipped = 0, finalBatchSize = 1\<rparr>"
proof -
  let ?body = "JObj [(''limit'', JNum 0), (''batchSize'', JNum 10)]"
  let ?qs = "[question_doc ''1'' ''What is 2+2?'', question_doc ''2'' ''x'']"
  let ?E = "env_up (JArr ?qs)"
  let ?st = "\<lparr>totalDocuments = 2, totalProcessed = 1, errors = 1, skipped = 0, finalBatchSize = 1\<rparr>"
  let ?w1 = "\<lparr>embedder = True,
         trace = [LoadModel True, RunModel ''What is 2+2?'' True,
                  Upsert [vector_of (JStr ''1'') ''What is 2+2?''] True]\<rparr>"
  have b: "?body = (case Some ?body of None \<Rightarrow> JObj [] | Some b \<Rightarrow> b)" by simp
  have bs: "get_prop ?body ''batchSize'' = Inr (Some (JNum 10))" by simp
  have l: "\<not> truthy (prop_of ?body ''limit'')" by (simp add: prop_of_def)
  have src: "read_source ?E (prop_of ?body ''jsonFilePath'') = Inr (JArr ?qs)" by (simp add: env_up_def)
  have run: "POST_migrate ?E fresh (Some ?body) = (MigrateOk ?st, ?w1)" by code_simp
  from falsy_limit_no_truncation [OF b bs l src, of fresh]
  have "\<forall>st w1. POST_migrate ?E fresh (Some ?body) = (MigrateOk st, w1) \<longrightarrow>
          totalDocuments st = length ?qs \<and> length ?qs \<le> totalProcessed st + errors st + skipped st"
    by (elim conjE)
  with run have "totalDocuments ?st = length ?qs"
    and "length ?qs \<le> totalProcessed ?st + errors ?st + skipped ?st"
    by blast+
  with l run show ?thesis by (intro conjI)
qed

end
